theory Spec2Isabelle
  imports Complex_Main "HOL-Library.Multiset" "HOL-Library.Monad_Syntax"
begin

chapter \<open>The model\<close>

section \<open>Numbers and strings\<close>

text \<open>
  The program is JavaScript (\<^verbatim>\<open>src/uesf/app.js\<close>); its Numbers are binary64
  floating-point numbers. The model reads them in two ways.

  In the exact reading a Number is a real number and every arithmetic operation is the
  real one. This is the reading of the geometric functions below and of the theorems
  about them, unless said otherwise. The one operation of the geometric code that could
  leave the finite numbers, a division by zero, is a failure (\<open>None\<close>), so that its
  absence is a theorem and not an assumption.

  In the rounded reading the result of an operation is the real result rounded to the
  nearest binary64 value, a tie going to the even significand. It is used where the
  rounding decides: for the quotient of \<^verbatim>\<open>formatDistance\<close>, and for a second model
  of \<^verbatim>\<open>pointInPolygon\<close>.

  NaN, the infinities and the sign of zero are outside the model. Strings are lists of
  8-bit characters (the code units below 256).
\<close>

definition js_divide :: "real \<Rightarrow> real \<Rightarrow> real option" where
  \<comment> \<open>\<^verbatim>\<open>a / b\<close>, exactly; \<open>None\<close> stands for a quotient by zero (\<^verbatim>\<open>Infinity\<close> or \<^verbatim>\<open>NaN\<close>).\<close>
  "js_divide a b = (if b = 0 then None else Some (a / b))"

text \<open>
  Rounding to binary64. A binary64 value is an integer multiple of its unit in the last
  place, which is \<open>2 powi (e - 52)\<close> for a magnitude from \<open>2 powi e\<close> up to
  \<open>2 powi (e + 1)\<close>, and \<open>2 powi (- 1074)\<close> below \<open>2 powi (- 1022)\<close> (the subnormal
  numbers). \<open>binary64\<close> does not bound the magnitude; \<open>rounded\<close> is the result of an
  operation, which fails when the rounded value is beyond the largest finite Number
  (\<^verbatim>\<open>Infinity\<close>).
\<close>

definition round_even :: "real \<Rightarrow> int" where
  "round_even y =
     (let f = \<lfloor>y\<rfloor>
      in if y - of_int f < 1 / 2 then f
         else if y - of_int f > 1 / 2 then f + 1
         else if even f then f else f + 1)"

definition binary64 :: "real \<Rightarrow> real" where
  "binary64 x =
     (let e = max \<lfloor>log 2 \<bar>x\<bar>\<rfloor> (- 1022);
          u = 2 powi (e - 52)
      in of_int (round_even (x / u)) * u)"

definition rounded :: "real \<Rightarrow> real option" where
  "rounded x = (let r = binary64 x in if \<bar>r\<bar> < 2 ^ 1024 then Some r else None)"

definition digit_char :: "nat \<Rightarrow> char" where
  "digit_char d = ''0123456789'' ! d"

text \<open>The decimal digits of a natural number, most significant first, \<open>''0''\<close> for zero.\<close>

fun digits :: "nat \<Rightarrow> string" where
  "digits n = (if n < 10 then [digit_char n] else digits (n div 10) @ [digit_char (n mod 10)])"

declare digits.simps [simp del]






text \<open>\<^verbatim>\<open>String.prototype.includes\<close>: \<open>sub\<close> occurs in \<open>s\<close> as a contiguous block.\<close>

definition starts_with :: "string \<Rightarrow> string \<Rightarrow> bool" where
  "starts_with s sub = (take (length sub) s = sub)"

fun js_includes :: "string \<Rightarrow> string \<Rightarrow> bool" where
  "js_includes [] sub = (sub = [])"
| "js_includes (c # cs) sub = (starts_with (c # cs) sub \<or> js_includes cs sub)"

text \<open>
  White space as \<^verbatim>\<open>trim\<close> and the white-space class of regular expressions know
  it, among the code units below 256: tab, line feed, vertical tab, form feed, carriage return, space, no-break
  space.
\<close>

definition is_white_space :: "char \<Rightarrow> bool" where
  "is_white_space c = (of_char c \<in> {9, 10, 11, 12, 13, 32, 160 :: nat})"

definition trim :: "string \<Rightarrow> string" where
  "trim s = rev (dropWhile is_white_space (rev (dropWhile is_white_space s)))"

text \<open>
  \<^verbatim>\<open>s.replace(sub, '')\<close> with a string pattern: the first occurrence of \<open>sub\<close> is
  removed.
\<close>

fun remove_first :: "string \<Rightarrow> string \<Rightarrow> string" where
  "remove_first [] sub = []"
| "remove_first (c # cs) sub =
     (if starts_with (c # cs) sub then drop (length sub) (c # cs)
      else c # remove_first cs sub)"

text \<open>
  The second \<^verbatim>\<open>replace\<close> of \<^verbatim>\<open>fetchSuggestions\<close>, whose pattern is a comma at
  the start followed by any white space: a leading comma goes, with the white space
  after it.
\<close>

definition strip_leading_comma :: "string \<Rightarrow> string" where
  "strip_leading_comma s =
     (case s of
        [] \<Rightarrow> []
      | c # cs \<Rightarrow> if c = CHR '','' then dropWhile is_white_space cs else s)"

section \<open>Point in polygon (ray casting)\<close>

text \<open>A point or polygon vertex is the array \<^verbatim>\<open>[lng, lat]\<close>, read as \<^verbatim>\<open>[x, y]\<close>.\<close>

type_synonym point = "real \<times> real"

text \<open>
  The body of the loop of \<^verbatim>\<open>pointInPolygon\<close>, for the edge between
  \<^verbatim>\<open>polygon[i]\<close> and \<^verbatim>\<open>polygon[j]\<close>:
  \<^verbatim>\<open>
  const intersects =
    ((yi > py) !== (yj > py)) &&
    (px < ((xj - xi) * (py - yi)) / (yj - yi) + xi);
  \<close>
  \<^verbatim>\<open>&&\<close> evaluates its right operand only when the left one is true.
\<close>

fun intersects :: "point \<Rightarrow> point \<Rightarrow> point \<Rightarrow> bool option" where
  "intersects (px, py) (xi, yi) (xj, yj) =
     (if (yi > py) \<noteq> (yj > py)
      then (case js_divide ((xj - xi) * (py - yi)) (yj - yi) of
              None \<Rightarrow> None
            | Some q \<Rightarrow> Some (px < q + xi))
      else Some False)"

text \<open>
  \<^verbatim>\<open>
  for (let i = 0, j = polygon.length - 1; i < polygon.length; j = i++) { ... }
  \<close>
  The state of the loop is \<open>i\<close>, \<open>j\<close> and \<open>inside\<close>. For the empty polygon the
  source starts with \<open>j = -1\<close> and the body never runs; the model starts with
  \<open>j = 0\<close> there (truncating subtraction), which is never read either. In every
  iteration \<open>i\<close> and \<open>j\<close> are indices of the polygon.
\<close>

function pip_loop :: "point \<Rightarrow> point list \<Rightarrow> nat \<Rightarrow> nat \<Rightarrow> bool \<Rightarrow> bool option" where
  "pip_loop p polygon i j inside =
     (if i < length polygon
      then (case intersects p (polygon ! i) (polygon ! j) of
              None \<Rightarrow> None
            | Some c \<Rightarrow> pip_loop p polygon (i + 1) i (if c then \<not> inside else inside))
      else Some inside)"
  by pat_completeness auto
termination
  by (relation "measure (\<lambda>(p, polygon, i, j, inside). length polygon - i)") auto

definition pointInPolygon :: "point \<Rightarrow> point list \<Rightarrow> bool option" where
  "pointInPolygon p polygon = pip_loop p polygon 0 (length polygon - 1) False"

text \<open>
  The same function in the rounded reading: each of the six operations of the crossing
  test gives the nearest binary64 value, and the comparisons are exact, as they are on
  Numbers. \<open>None\<close> is a division by zero or a result beyond the finite Numbers.
\<close>

fun intersects_binary64 :: "point \<Rightarrow> point \<Rightarrow> point \<Rightarrow> bool option" where
  "intersects_binary64 (px, py) (xi, yi) (xj, yj) =
     (if (yi > py) \<noteq> (yj > py)
      then do {
        a \<leftarrow> rounded (xj - xi);
        b \<leftarrow> rounded (py - yi);
        c \<leftarrow> rounded (a * b);
        d \<leftarrow> rounded (yj - yi);
        q \<leftarrow> (if d = 0 then None else rounded (c / d));
        r \<leftarrow> rounded (q + xi);
        Some (px < r)
      }
      else Some False)"

function pip_loop_binary64 :: "point \<Rightarrow> point list \<Rightarrow> nat \<Rightarrow> nat \<Rightarrow> bool \<Rightarrow> bool option" where
  "pip_loop_binary64 p polygon i j inside =
     (if i < length polygon
      then (case intersects_binary64 p (polygon ! i) (polygon ! j) of
              None \<Rightarrow> None
            | Some c \<Rightarrow> pip_loop_binary64 p polygon (i + 1) i (if c then \<not> inside else inside))
      else Some inside)"
  by pat_completeness auto
termination
  by (relation "measure (\<lambda>(p, polygon, i, j, inside). length polygon - i)") auto

definition pointInPolygon_binary64 :: "point \<Rightarrow> point list \<Rightarrow> bool option" where
  "pointInPolygon_binary64 p polygon =
     pip_loop_binary64 p polygon 0 (length polygon - 1) False"

text \<open>
  Two notions for the proofs. The edges the loop visits, in its order: vertex \<open>i\<close>
  paired with its cyclic predecessor. And an edge that toggles \<open>inside\<close>.
\<close>

definition cyclic_edges :: "point list \<Rightarrow> (point \<times> point) list" where
  "cyclic_edges polygon = zip polygon (last polygon # butlast polygon)"

definition crosses :: "point \<Rightarrow> point \<times> point \<Rightarrow> bool" where
  "crosses p e = (intersects p (fst e) (snd e) = Some True)"

section \<open>Great-circle distance and its rendering\<close>

definition toRad :: "real \<Rightarrow> real" where
  "toRad deg = (deg * pi) / 180"

text \<open>
  \<^verbatim>\<open>Math.atan2(y, x)\<close> on finite arguments: the angle of the point \<open>(x, y)\<close> in
  \<open>(-\<pi>, \<pi>]\<close>, and \<open>0\<close> at the origin (both arguments of the call below are square
  roots, hence never the negative zero).
\<close>

definition Math_atan2 :: "real \<Rightarrow> real \<Rightarrow> real" where
  "Math_atan2 y x =
     (if x > 0 then arctan (y / x)
      else if x < 0 then (if y \<ge> 0 then arctan (y / x) + pi else arctan (y / x) - pi)
      else if y > 0 then pi / 2
      else if y < 0 then - (pi / 2)
      else 0)"

text \<open>
  \<^verbatim>\<open>haversineDistance\<close> in the exact reading (the accuracy of \<^verbatim>\<open>Math.sin\<close> and
  its like is left to the implementation, so there is no rounded reading of it).
  \<^verbatim>\<open>Math.sqrt\<close> is \<open>sqrt\<close>; it would be \<^verbatim>\<open>NaN\<close> below zero, and lemma
  \<open>hav_a_range\<close> shows that neither radicand is.
\<close>

definition haversineDistance :: "real \<Rightarrow> real \<Rightarrow> real \<Rightarrow> real \<Rightarrow> real" where
  "haversineDistance lat1 lon1 lat2 lon2 =
     (let R = 6371000;
          dLat = toRad (lat2 - lat1);
          dLon = toRad (lon2 - lon1);
          a = (sin (dLat / 2))\<^sup>2 +
              cos (toRad lat1) * cos (toRad lat2) * (sin (dLon / 2))\<^sup>2;
          c = 2 * Math_atan2 (sqrt a) (sqrt (1 - a))
      in R * c)"



section \<open>The remote services\<close>

text \<open>
  A thrown value: the name of its class and its message.
\<close>

datatype js_error = JsError (error_name: string) (message: string)

text \<open>
  What \<^verbatim>\<open>await fetch(url)\<close> followed by \<^verbatim>\<open>await response.json()\<close> can give:
  \<^verbatim>\<open>fetch\<close> rejects (no connectivity, DNS, timeout; browsers reject with a
  \<^verbatim>\<open>TypeError\<close> whose message is theirs), or it resolves with a response that has
  its \<^verbatim>\<open>ok\<close> flag, its status and a body, which \<^verbatim>\<open>json()\<close> parses or rejects.
  The outcome is the environment's choice; the query string only travels in the URL.
\<close>

datatype 'a fetched =
    FetchRejected js_error
  | HttpResponse (response_ok: bool) (response_status: nat) (response_json: "js_error + 'a")

text \<open>
  A parsed body, of which the code reads \<^verbatim>\<open>data.features\<close> (which may be missing).
  A feature, when there is one, is well formed.
\<close>

record 'f feature_collection =
  features :: "'f list option"

record geo_feature =
  center :: point
  place_name :: string
  feature_text :: string

record iso_feature =
  coordinates :: "point list list"

record lnglat =
  lng :: real
  lat :: real

record coords = lnglat +
  placeName :: string

definition geocodeAddress :: "geo_feature feature_collection fetched \<Rightarrow> js_error + coords" where
  "geocodeAddress response =
     (case response of
        FetchRejected e \<Rightarrow> Inl e
      | HttpResponse ok status body \<Rightarrow>
          if \<not> ok
          then Inl (JsError ''Error'' (''Geocoding failed (HTTP '' @ digits status @ '')''))
          else (case body of
                  Inl e \<Rightarrow> Inl e
                | Inr data \<Rightarrow>
                    (case features data of
                       None \<Rightarrow>
                         Inl (JsError ''Error''
                           ''Address not found. Please try a more specific address.'')
                     | Some [] \<Rightarrow>
                         Inl (JsError ''Error''
                           ''Address not found. Please try a more specific address.'')
                     | Some (f # _) \<Rightarrow>
                         Inr \<lparr>lng = fst (center f), lat = snd (center f),
                              placeName = place_name f\<rparr>)))"

definition fetchIsochrone ::
  "iso_feature feature_collection fetched \<Rightarrow> js_error + iso_feature feature_collection" where
  "fetchIsochrone response =
     (case response of
        FetchRejected e \<Rightarrow> Inl e
      | HttpResponse ok status body \<Rightarrow>
          if \<not> ok
          then Inl (JsError ''Error'' (''Isochrone API failed (HTTP '' @ digits status @ '')''))
          else (case body of
                  Inl e \<Rightarrow> Inl e
                | Inr data \<Rightarrow>
                    (case features data of
                       None \<Rightarrow>
                         Inl (JsError ''Error''
                           ''Could not generate walking distance area for this location.'')
                     | Some [] \<Rightarrow>
                         Inl (JsError ''Error''
                           ''Could not generate walking distance area for this location.'')
                     | Some (f # fs) \<Rightarrow> Inr data)))"

text \<open>
  \<^verbatim>\<open>
  const response = await fetch(url);
  if (!response.ok) return [];
  const data = await response.json();
  return (data.features || []).map(f => ({
    placeName: f.place_name,
    text: f.text,
    context: f.place_name.replace(f.text, '').replace(/^,\s*/, ''),
  }));
  \<close>
  There is no \<^verbatim>\<open>try\<close> in the function: a rejection of either \<^verbatim>\<open>await\<close> is the
  function's own rejection.
\<close>

record suggestion =
  sugg_placeName :: string
  sugg_text :: string
  sugg_context :: string

definition to_suggestion :: "geo_feature \<Rightarrow> suggestion" where
  "to_suggestion f =
     \<lparr>sugg_placeName = place_name f,
      sugg_text = feature_text f,
      sugg_context = strip_leading_comma (remove_first (place_name f) (feature_text f))\<rparr>"

definition fetchSuggestions ::
  "geo_feature feature_collection fetched \<Rightarrow> js_error + suggestion list" where
  "fetchSuggestions response =
     (case response of
        FetchRejected e \<Rightarrow> Inl e
      | HttpResponse ok status body \<Rightarrow>
          if \<not> ok then Inr []
          else (case body of
                  Inl e \<Rightarrow> Inl e
                | Inr data \<Rightarrow>
                    Inr (map to_suggestion
                          (case features data of None \<Rightarrow> [] | Some fs \<Rightarrow> fs))))"

section \<open>Filtering and ranking\<close>

text \<open>
  The candidate list \<^verbatim>\<open>SFUSD_SCHOOLS\<close> is a global of another script; the functions
  below take it as a parameter. A ranked school is the copy \<^verbatim>\<open>{ ...school }\<close> with
  its \<^verbatim>\<open>distance\<close>.
\<close>

record school = lnglat +
  name :: string
  address :: "string option"
  website :: "string option"

record ranked_school = school +
  distance :: real

definition with_distance :: "school \<Rightarrow> real \<Rightarrow> ranked_school" where
  "with_distance s d =
     \<lparr>lng = lng s, lat = lat s, name = name s, address = address s, website = website s,
      distance = d\<rparr>"

text \<open>
  \<^verbatim>\<open>Array.prototype.sort(compare)\<close> is a built-in. ECMAScript (2019 on) requires it
  to be stable, and to sort when the comparison is consistent; every such sort returns
  the same array. It is modelled by the stable insertion sort: an element goes before
  the first one it does not compare greater than.
\<close>

fun insert_by :: "('a \<Rightarrow> 'a \<Rightarrow> real) \<Rightarrow> 'a \<Rightarrow> 'a list \<Rightarrow> 'a list" where
  "insert_by compare x [] = [x]"
| "insert_by compare x (y # ys) =
     (if compare x y \<le> 0 then x # y # ys else y # insert_by compare x ys)"

definition Array_sort :: "('a \<Rightarrow> 'a \<Rightarrow> real) \<Rightarrow> 'a list \<Rightarrow> 'a list" where
  "Array_sort compare xs = foldr (insert_by compare) xs []"

text \<open>
  Steps 3 and 4 of the submit listener, for a region polygon that is there:
  \<^verbatim>\<open>
  const schools = SFUSD_SCHOOLS
    .filter(school => pointInPolygon([school.lng, school.lat], isochronePolygon))
    .map(school => ({ ...school }));
  schools.forEach(school => {
    school.distance = haversineDistance(coords.lat, coords.lng, school.lat, school.lng);
  });
  schools.sort((a, b) => a.distance - b.distance);
  \<close>
  The test never divides by zero (lemma \<open>pointInPolygon_parity\<close>), so a school
  passes the filter exactly when the test gives \<open>Some True\<close>.
\<close>

definition in_region :: "point list \<Rightarrow> school \<Rightarrow> bool" where
  "in_region isochronePolygon s = (pointInPolygon (lng s, lat s) isochronePolygon = Some True)"

definition annotate :: "coords \<Rightarrow> school \<Rightarrow> ranked_school" where
  "annotate c s = with_distance s (haversineDistance (lat c) (lng c) (lat s) (lng s))"

definition rank_schools :: "school list \<Rightarrow> coords \<Rightarrow> point list \<Rightarrow> ranked_school list" where
  "rank_schools SFUSD_SCHOOLS c isochronePolygon =
     Array_sort (\<lambda>a b. distance a - distance b)
       (map (annotate c) (filter (in_region isochronePolygon) SFUSD_SCHOOLS))"

section \<open>The page and its event listeners\<close>

text \<open>
  The state of the page: the parts of the document the listeners read and write, the
  variables of the script, and what the runtime holds for it (pending timers, and the
  listeners suspended at an \<^verbatim>\<open>await\<close>). The map widget is kept as the markers and
  the isochrone source it was given.
\<close>

datatype marker = AddressMarker coords | SchoolMarker ranked_school nat

datatype timer =
    Debounce string  \<comment> \<open>the callback of the input listener, with its \<^verbatim>\<open>query\<close>\<close>
  | BlurTimer        \<comment> \<open>the callback of the blur listener\<close>

datatype search_stage =
    AwaitGeocode             \<comment> \<open>suspended at \<^verbatim>\<open>await geocodeAddress(query)\<close>\<close>
  | AwaitIsochrone coords    \<comment> \<open>suspended at \<^verbatim>\<open>await fetchIsochrone(...)\<close>\<close>

record app =
  address_value :: string                  \<comment> \<open>\<^verbatim>\<open>addressInput.value\<close>\<close>
  status_text :: string                    \<comment> \<open>\<^verbatim>\<open>statusMessage.textContent\<close>\<close>
  status_info :: bool                      \<comment> \<open>\<^verbatim>\<open>statusMessage\<close> has class \<^verbatim>\<open>info\<close>\<close>
  status_hidden :: bool
  results_items :: "ranked_school list"    \<comment> \<open>the items of \<^verbatim>\<open>resultsList\<close>\<close>
  results_header_hidden :: bool
  results_count :: string                  \<comment> \<open>\<^verbatim>\<open>resultsCount.textContent\<close>\<close>
  no_results_hidden :: bool
  loading :: bool                          \<comment> \<open>overlay shown and \<^verbatim>\<open>searchBtn\<close> disabled\<close>
  autocomplete_items :: "suggestion list"  \<comment> \<open>the items of \<^verbatim>\<open>autocompleteList\<close>\<close>
  autocomplete_hidden :: bool
  isochrone_source :: "iso_feature feature_collection option"
  currentMarkers :: "marker list"
  autocompleteDebounceTimer :: "nat option"
  activeAutocompleteIndex :: int
  lastSearchedAddress :: string
  timers :: "(nat \<times> timer) list"          \<comment> \<open>pending timers, by id\<close>
  suggestion_fetches :: "(nat \<times> string) list"
    \<comment> \<open>debounce callbacks suspended at \<^verbatim>\<open>await fetchSuggestions(query)\<close>\<close>
  searches :: "(nat \<times> search_stage) list"  \<comment> \<open>suspended submit listeners\<close>
  next_id :: nat

text \<open>
  The page as the script finds it. The variables start as the script initialises them;
  the document (not part of the script) starts with an empty field, empty lists and
  its panels hidden.
\<close>

definition initial_app :: app where
  "initial_app =
     \<lparr>address_value = '''', status_text = '''', status_info = False, status_hidden = True,
      results_items = [], results_header_hidden = True, results_count = '''',
      no_results_hidden = True, loading = False,
      autocomplete_items = [], autocomplete_hidden = True,
      isochrone_source = None, currentMarkers = [],
      autocompleteDebounceTimer = None, activeAutocompleteIndex = - 1,
      lastSearchedAddress = '''',
      timers = [], suggestion_fetches = [], searches = [], next_id = 0\<rparr>"

definition AUTOCOMPLETE_MIN_CHARS :: nat where
  "AUTOCOMPLETE_MIN_CHARS = 3"

subsection \<open>Utilities\<close>

definition showLoading :: "bool \<Rightarrow> app \<Rightarrow> app" where
  "showLoading show s = s\<lparr>loading := show\<rparr>"

definition setStatus :: "string \<Rightarrow> bool \<Rightarrow> app \<Rightarrow> app" where
  "setStatus msg isError s =
     (if msg = '''' then s\<lparr>status_hidden := True\<rparr>
      else s\<lparr>status_text := msg, status_info := \<not> isError, status_hidden := False\<rparr>)"

definition removeMapLayers :: "app \<Rightarrow> app" where
  "removeMapLayers s = s\<lparr>currentMarkers := [], isochrone_source := None\<rparr>"

definition clearPreviousResults :: "app \<Rightarrow> app" where
  "clearPreviousResults s =
     removeMapLayers (s\<lparr>results_items := [], results_header_hidden := True,
                        no_results_hidden := True\<rparr>)"

text \<open>
  The message \<^verbatim>\<open>handleError\<close> chooses (its variable \<^verbatim>\<open>userMessage\<close>), and the
  function itself.
\<close>

definition userMessage :: "js_error \<Rightarrow> string" where
  "userMessage err =
     (if js_includes (message err) ''Address not found'' then message err
      else if js_includes (message err) ''Geocoding failed''
        then ''Could not look up that address. Please check your input and try again.''
      else if js_includes (message err) ''Isochrone''
        then ''Could not calculate walking distance from this location. Try a different address.''
      else if error_name err = ''TypeError'' \<and> js_includes (message err) ''fetch''
        then ''Network error. Please check your internet connection.''
      else ''An unexpected error occurred. Please try again.'')"

definition handleError :: "js_error \<Rightarrow> app \<Rightarrow> app" where
  "handleError err s = setStatus (userMessage err) True s"

subsection \<open>Map and result list\<close>

text \<open>
  \<^verbatim>\<open>displayOnMap\<close> puts the address marker, the isochrone source and one marker per
  school, and then reads the first ring of the first feature for the bounds; a missing
  ring makes \<^verbatim>\<open>polyCoords.forEach\<close> throw a \<^verbatim>\<open>TypeError\<close>, after the map was
  changed. The result is the new state and the exception, if any.
\<close>

definition first_ring :: "iso_feature feature_collection \<Rightarrow> point list option" where
  \<comment> \<open>\<^verbatim>\<open>isochroneGeoJSON.features[0].geometry.coordinates[0]\<close>, for a non-empty feature list\<close>
  "first_ring data =
     (case features data of
        Some (f # fs) \<Rightarrow> (case coordinates f of [] \<Rightarrow> None | ring # rings \<Rightarrow> Some ring)
      | _ \<Rightarrow> None)"

definition undefined_TypeError :: js_error where
  "undefined_TypeError = JsError ''TypeError'' ''Cannot read properties of undefined''"

definition displayOnMap ::
  "coords \<Rightarrow> iso_feature feature_collection \<Rightarrow> ranked_school list \<Rightarrow> app \<Rightarrow> app \<times> js_error option" where
  "displayOnMap c isochroneGeoJSON schools s =
     (let s1 = removeMapLayers s;
          s2 = s1\<lparr>currentMarkers := currentMarkers s1 @ [AddressMarker c]\<rparr>;
          s3 = s2\<lparr>isochrone_source := Some isochroneGeoJSON\<rparr>;
          s4 = s3\<lparr>currentMarkers :=
                  currentMarkers s3 @ map (\<lambda>(school, index). SchoolMarker school index)
                                         (zip schools [0 ..< length schools])\<rparr>
      in case first_ring isochroneGeoJSON of
           None \<Rightarrow> (s4, Some undefined_TypeError)
         | Some polyCoords \<Rightarrow> (s4, None))"

definition displayResultsList :: "ranked_school list \<Rightarrow> app \<Rightarrow> app" where
  "displayResultsList schools s =
     (let s1 = s\<lparr>results_items := []\<rparr>
      in if length schools = 0
         then s1\<lparr>results_header_hidden := True, no_results_hidden := False\<rparr>
         else s1\<lparr>no_results_hidden := True, results_header_hidden := False,
                 results_count := digits (length schools) @ '' school''
                    @ (if length schools \<noteq> 1 then ''s'' else ''''),
                 results_items := schools\<rparr>)"

subsection \<open>Autocomplete\<close>

text \<open>
  Two properties of a state, for the theorems. The active index is at least \<open>-1\<close>;
  it is below the number of rendered suggestions whenever there are any; and a visible
  list is not empty. And every pending debounce timer is the one whose id the variable
  \<^verbatim>\<open>autocompleteDebounceTimer\<close> holds.
\<close>

definition index_in_range :: "app \<Rightarrow> bool" where
  "index_in_range s =
     (- 1 \<le> activeAutocompleteIndex s
      \<and> (autocomplete_items s \<noteq> [] \<longrightarrow>
           activeAutocompleteIndex s \<le> int (length (autocomplete_items s)) - 1)
      \<and> (\<not> autocomplete_hidden s \<longrightarrow> autocomplete_items s \<noteq> []))"



definition renderSuggestions :: "suggestion list \<Rightarrow> app \<Rightarrow> app" where
  "renderSuggestions suggestions s =
     (let s1 = s\<lparr>autocomplete_items := [], activeAutocompleteIndex := - 1\<rparr>
      in if length suggestions = 0 then s1\<lparr>autocomplete_hidden := True\<rparr>
         else s1\<lparr>autocomplete_items := suggestions, autocomplete_hidden := False\<rparr>)"

definition clearTimeout :: "nat option \<Rightarrow> app \<Rightarrow> app" where
  "clearTimeout t s =
     (case t of
        None \<Rightarrow> s
      | Some i \<Rightarrow> s\<lparr>timers := filter (\<lambda>(j, cb). j \<noteq> i) (timers s)\<rparr>)"

definition setTimeout :: "timer \<Rightarrow> app \<Rightarrow> nat \<times> app" where
  "setTimeout cb s = (next_id s, s\<lparr>timers := timers s @ [(next_id s, cb)], next_id := next_id s + 1\<rparr>)"

text \<open>The input listener; \<open>v\<close> is the value the field has after the edit.\<close>

definition on_input :: "string \<Rightarrow> app \<Rightarrow> app" where
  "on_input v s0 =
     (let s = s0\<lparr>address_value := v\<rparr>;
          s1 = clearTimeout (autocompleteDebounceTimer s) s;
          query = trim (address_value s1)
      in if length query < AUTOCOMPLETE_MIN_CHARS
         then s1\<lparr>autocomplete_hidden := True, autocomplete_items := []\<rparr>
         else (let (t, s2) = setTimeout (Debounce query) s1
               in s2\<lparr>autocompleteDebounceTimer := Some t\<rparr>))"

subsection \<open>The search listener\<close>

text \<open>
  The submit listener up to its first \<^verbatim>\<open>await\<close>: it returns at once on an empty
  query; otherwise it clears the page, shows the overlay, records the query and calls
  \<^verbatim>\<open>geocodeAddress\<close>, where it is suspended under a fresh id.
\<close>

definition on_submit :: "app \<Rightarrow> app" where
  "on_submit s =
     (let query = trim (address_value s)
      in if query = '''' then s
         else (let s1 = s\<lparr>autocomplete_hidden := True, autocomplete_items := []\<rparr>;
                   s2 = clearPreviousResults s1;
                   s3 = showLoading True s2;
                   s4 = setStatus '''' False s3;
                   s5 = s4\<lparr>lastSearchedAddress := query\<rparr>
               in s5\<lparr>searches := searches s5 @ [(next_id s5, AwaitGeocode)],
                      next_id := next_id s5 + 1\<rparr>))"

text \<open>\<^verbatim>\<open>catch (err) { handleError(err); } finally { showLoading(false); }\<close>\<close>

definition search_failed :: "js_error \<Rightarrow> app \<Rightarrow> app" where
  "search_failed err s = showLoading False (handleError err s)"

text \<open>
  The listener resumes when its geocoding call settles: an error ends it in the
  \<^verbatim>\<open>catch\<close>, coordinates take it to \<^verbatim>\<open>await fetchIsochrone\<close>.
\<close>

definition on_geocode_settled :: "nat \<Rightarrow> geo_feature feature_collection fetched \<Rightarrow> app \<Rightarrow> app" where
  "on_geocode_settled i response s =
     (case map_of (searches s) i of
        Some AwaitGeocode \<Rightarrow>
          (let s1 = s\<lparr>searches := filter (\<lambda>(j, st). j \<noteq> i) (searches s)\<rparr>
           in case geocodeAddress response of
                Inl err \<Rightarrow> search_failed err s1
              | Inr c \<Rightarrow> s1\<lparr>searches := searches s1 @ [(i, AwaitIsochrone c)]\<rparr>)
      | _ \<Rightarrow> s)"

text \<open>
  Steps 3 to 8, with the exception they end in, if any. When the first feature has no
  ring, \<^verbatim>\<open>isochronePolygon\<close> is \<^verbatim>\<open>undefined\<close>: the first call of
  \<^verbatim>\<open>pointInPolygon\<close> throws on \<^verbatim>\<open>polygon.length\<close>, and with no school to test
  \<^verbatim>\<open>displayOnMap\<close> throws instead.
\<close>

definition display_results ::
  "school list \<Rightarrow> coords \<Rightarrow> iso_feature feature_collection \<Rightarrow> app \<Rightarrow> app \<times> js_error option" where
  "display_results SFUSD_SCHOOLS c isochroneGeoJSON s =
     (let filtered =
        (case first_ring isochroneGeoJSON of
           None \<Rightarrow> if SFUSD_SCHOOLS = [] then Some [] else None
         | Some isochronePolygon \<Rightarrow> Some (rank_schools SFUSD_SCHOOLS c isochronePolygon))
      in case filtered of
           None \<Rightarrow> (s, Some undefined_TypeError)
         | Some schools \<Rightarrow>
             (case displayOnMap c isochroneGeoJSON schools s of
                (s1, Some err) \<Rightarrow> (s1, Some err)
              | (s1, None) \<Rightarrow> (displayResultsList schools s1, None)))"

definition on_isochrone_settled ::
  "school list \<Rightarrow> nat \<Rightarrow> iso_feature feature_collection fetched \<Rightarrow> app \<Rightarrow> app" where
  "on_isochrone_settled SFUSD_SCHOOLS i response s =
     (case map_of (searches s) i of
        Some (AwaitIsochrone c) \<Rightarrow>
          (let s1 = s\<lparr>searches := filter (\<lambda>(j, st). j \<noteq> i) (searches s)\<rparr>
           in case fetchIsochrone response of
                Inl err \<Rightarrow> search_failed err s1
              | Inr isochroneGeoJSON \<Rightarrow>
                  (case display_results SFUSD_SCHOOLS c isochroneGeoJSON s1 of
                     (s2, Some err) \<Rightarrow> search_failed err s2
                   | (s2, None) \<Rightarrow> showLoading False s2))
      | _ \<Rightarrow> s)"

subsection \<open>The autocomplete listeners\<close>

text \<open>
  \<^verbatim>\<open>requestSubmit()\<close> dispatches the submit event, whose listener runs to its first
  \<^verbatim>\<open>await\<close> before \<^verbatim>\<open>selectSuggestion\<close> returns.
\<close>

definition selectSuggestion :: "string \<Rightarrow> app \<Rightarrow> app" where
  "selectSuggestion place s =
     on_submit (s\<lparr>address_value := place, autocomplete_hidden := True,
                  autocomplete_items := [], activeAutocompleteIndex := - 1\<rparr>)"

datatype key = ArrowDown | ArrowUp | Enter | Escape | OtherKey

text \<open>
  The keydown listener. \<^verbatim>\<open>updateActiveItem\<close> only restyles and scrolls the items
  after \<^verbatim>\<open>activeAutocompleteIndex\<close>. Reading \<^verbatim>\<open>items[activeAutocompleteIndex]\<close>
  beyond the items would throw in the listener, which leaves the state as it is.
\<close>

definition on_keydown :: "key \<Rightarrow> app \<Rightarrow> app" where
  "on_keydown k s =
     (if autocomplete_hidden s then s
      else let items = autocomplete_items s
           in if length items = 0 then s
              else if k = ArrowDown
                then s\<lparr>activeAutocompleteIndex :=
                         min (activeAutocompleteIndex s + 1) (int (length items) - 1)\<rparr>
              else if k = ArrowUp
                then s\<lparr>activeAutocompleteIndex := max (activeAutocompleteIndex s - 1) 0\<rparr>
              else if k = Enter \<and> activeAutocompleteIndex s \<ge> 0
                then (if activeAutocompleteIndex s < int (length items)
                      then selectSuggestion
                             (sugg_placeName (items ! nat (activeAutocompleteIndex s))) s
                      else s)
              else if k = Escape
                then s\<lparr>autocomplete_hidden := True, activeAutocompleteIndex := - 1\<rparr>
              else s)"

text \<open>The mousedown listener of the rendered item \<open>i\<close>.\<close>

definition on_mousedown :: "nat \<Rightarrow> app \<Rightarrow> app" where
  "on_mousedown i s =
     (if i < length (autocomplete_items s)
      then selectSuggestion (sugg_placeName (autocomplete_items s ! i)) s
      else s)"

definition on_blur :: "app \<Rightarrow> app" where
  "on_blur s = snd (setTimeout BlurTimer s)"

text \<open>
  A pending timer fires. The debounce callback calls \<^verbatim>\<open>fetchSuggestions(query)\<close>
  and is suspended there under a fresh id; the blur callback hides the list.
\<close>

definition on_timer :: "nat \<Rightarrow> app \<Rightarrow> app" where
  "on_timer i s =
     (case map_of (timers s) i of
        None \<Rightarrow> s
      | Some cb \<Rightarrow>
          (let s1 = s\<lparr>timers := filter (\<lambda>(j, cb). j \<noteq> i) (timers s)\<rparr>
           in case cb of
                Debounce query \<Rightarrow>
                  s1\<lparr>suggestion_fetches := suggestion_fetches s1 @ [(next_id s1, query)],
                     next_id := next_id s1 + 1\<rparr>
              | BlurTimer \<Rightarrow>
                  s1\<lparr>autocomplete_hidden := True, activeAutocompleteIndex := - 1\<rparr>))"

text \<open>
  \<^verbatim>\<open>
  const suggestions = await fetchSuggestions(query);
  renderSuggestions(suggestions);
  \<close>
  A rejection ends the callback there; nothing catches it.
\<close>

definition on_suggestions_settled ::
  "nat \<Rightarrow> geo_feature feature_collection fetched \<Rightarrow> app \<Rightarrow> app" where
  "on_suggestions_settled i response s =
     (case map_of (suggestion_fetches s) i of
        None \<Rightarrow> s
      | Some query \<Rightarrow>
          (let s1 = s\<lparr>suggestion_fetches := filter (\<lambda>(j, q). j \<noteq> i) (suggestion_fetches s)\<rparr>
           in case fetchSuggestions response of
                Inl err \<Rightarrow> s1
              | Inr suggestions \<Rightarrow> renderSuggestions suggestions s1))"

subsection \<open>The event loop\<close>

text \<open>
  What the runtime can hand to the script: an event of the document, a timer, or the
  settling of a request with the response the network chose. \<open>Submit\<close> is the submit
  event of the form however it came about. An event for a timer or request that is not
  pending changes nothing.
\<close>

datatype event =
    Input string
  | KeyDown key
  | Blur
  | MouseDown nat
  | Submit
  | TimerFires nat
  | SuggestionsSettled nat "geo_feature feature_collection fetched"
  | GeocodeSettled nat "geo_feature feature_collection fetched"
  | IsochroneSettled nat "iso_feature feature_collection fetched"

fun step :: "school list \<Rightarrow> app \<Rightarrow> event \<Rightarrow> app" where
  "step SFUSD_SCHOOLS s (Input v) = on_input v s"
| "step SFUSD_SCHOOLS s (KeyDown k) = on_keydown k s"
| "step SFUSD_SCHOOLS s Blur = on_blur s"
| "step SFUSD_SCHOOLS s (MouseDown i) = on_mousedown i s"
| "step SFUSD_SCHOOLS s Submit = on_submit s"
| "step SFUSD_SCHOOLS s (TimerFires i) = on_timer i s"
| "step SFUSD_SCHOOLS s (SuggestionsSettled i response) = on_suggestions_settled i response s"
| "step SFUSD_SCHOOLS s (GeocodeSettled i response) = on_geocode_settled i response s"
| "step SFUSD_SCHOOLS s (IsochroneSettled i response) =
     on_isochrone_settled SFUSD_SCHOOLS i response s"

fun run :: "school list \<Rightarrow> app \<Rightarrow> event list \<Rightarrow> app" where
  "run SFUSD_SCHOOLS s [] = s"
| "run SFUSD_SCHOOLS s (e # es) = run SFUSD_SCHOOLS (step SFUSD_SCHOOLS s e) es"

section \<open>Concrete inputs\<close>

text \<open>
  Responses, candidates and event sequences on which the theorems below are evaluated.
\<close>

definition unit_square :: "point list" where
  "unit_square = [(0, 0), (1, 0), (1, 1), (0, 1)]"

definition far_square :: "point list" where
  "far_square = [(10, 10), (11, 10), (11, 11), (10, 11)]"

definition example_schools :: "school list" where
  "example_schools =
     [\<lparr>lng = 1 / 2, lat = 1 / 2, name = ''Alpha'', address = None, website = None\<rparr>,
      \<lparr>lng = 2, lat = 2, name = ''Beta'', address = None, website = None\<rparr>,
      \<lparr>lng = 1 / 2, lat = 1 / 2, name = ''Gamma'', address = None, website = None\<rparr>]"

definition geocode_ok :: "string \<Rightarrow> point \<Rightarrow> geo_feature feature_collection fetched" where
  "geocode_ok place p =
     HttpResponse True 200
       (Inr \<lparr>features = Some [\<lparr>center = p, place_name = place, feature_text = place\<rparr>]\<rparr>)"

definition isochrone_ok :: "point list \<Rightarrow> iso_feature feature_collection fetched" where
  "isochrone_ok ring = HttpResponse True 200 (Inr \<lparr>features = Some [\<lparr>coordinates = [ring]\<rparr>]\<rparr>)"

definition network_down :: "'a fetched" where
  "network_down = FetchRejected (JsError ''TypeError'' ''Failed to fetch'')"

text \<open>A search whose geocoding call has settled and whose isochrone call is in flight.\<close>

definition search_geocoded :: "event list" where
  "search_geocoded =
     [Input ''100 First St'', Submit,
      GeocodeSettled 1 (geocode_ok ''100 First St'' (1 / 2, 1 / 2))]"

text \<open>
  A search for a first address is submitted. While it is in flight the user types a
  second address, moves to the suggestion offered for it and picks it with Enter, which
  submits the second search; and the second search completes (its region holds no
  candidate).
\<close>

definition second_search_done :: "event list" where
  "second_search_done =
     [Input ''100 First St'', Submit, TimerFires 0,
      Input ''200 Second St'', TimerFires 3,
      SuggestionsSettled 4 (geocode_ok ''200 Second St'' (21 / 2, 21 / 2)),
      KeyDown ArrowDown, KeyDown Enter,
      GeocodeSettled 5 (geocode_ok ''200 Second St'' (21 / 2, 21 / 2)),
      IsochroneSettled 5 (isochrone_ok far_square)]"

text \<open>Then the responses of the first search arrive.\<close>

definition first_search_late :: "event list" where
  "first_search_late =
     [GeocodeSettled 1 (geocode_ok ''100 First St'' (1 / 2, 1 / 2)),
      IsochroneSettled 1 (isochrone_ok unit_square)]"

text \<open>
  The user types \<open>abc\<close> and pauses, so that the request for it is issued, and then
  types on; the response for \<open>abc\<close> arrives after that. Or the field loses the focus
  after the request was issued, the list is hidden, and the response arrives after that.
\<close>

definition typing_continues :: "event list" where
  "typing_continues = [Input ''abc'', TimerFires 0, Input ''abcd'']"

definition focus_lost :: "event list" where
  "focus_lost = [Input ''abc'', TimerFires 0, Blur, TimerFires 2]"

definition late_suggestions :: event where
  "late_suggestions = SuggestionsSettled 1 (geocode_ok ''abc street'' (0, 0))"

text \<open>
  Two suggestions are shown, the user moves down to the second one and then deletes a
  character, which leaves two characters in the field.
\<close>

definition two_suggestions :: "geo_feature feature_collection fetched" where
  "two_suggestions =
     HttpResponse True 200
       (Inr \<lparr>features = Some
          [\<lparr>center = (0, 0), place_name = ''abc street, town'', feature_text = ''abc street''\<rparr>,
           \<lparr>center = (1, 1), place_name = ''abc road, town'', feature_text = ''abc road''\<rparr>]\<rparr>)"

definition second_suggestion_active :: "event list" where
  "second_suggestion_active =
     [Input ''abc'', TimerFires 0, SuggestionsSettled 1 two_suggestions,
      KeyDown ArrowDown, KeyDown ArrowDown]"

definition index_left_behind :: "event list" where
  "index_left_behind = second_suggestion_active @ [Input ''ab'']"

text \<open>A search whose isochrone response has a ring of two vertices.\<close>

definition degenerate_ring_search :: "event list" where
  "degenerate_ring_search =
     [Input ''100 First St'', Submit,
      GeocodeSettled 1 (geocode_ok ''100 First St'' (1 / 2, 1 / 2)),
      IsochroneSettled 1 (isochrone_ok [(0, 0), (1, 1)])]"

chapter \<open>Properties\<close>

section \<open>Rounding\<close>

lemma round_even_near: "\<bar>real_of_int (round_even y) - y\<bar> \<le> 1 / 2"
  unfolding round_even_def Let_def by (auto; linarith)

lemma floor_log2_bounds:
  assumes "x \<noteq> 0"
  defines "e \<equiv> \<lfloor>log 2 \<bar>x\<bar>\<rfloor>"
  shows "2 powi e \<le> \<bar>x\<bar>" "\<bar>x\<bar> < 2 powi (e + 1)"
proof -
  have p: "(2::real) powr (real_of_int k) = 2 powi k" for k
    by (rule powr_real_of_int') simp_all
  have "2 powr (real_of_int e) \<le> \<bar>x\<bar> \<and> \<bar>x\<bar> < 2 powr (real_of_int e + 1)"
    using assms(1) floor_log_eq_powr_iff [of "\<bar>x\<bar>" 2 e] by (simp add: e_def)
  then have "2 powr (real_of_int e) \<le> \<bar>x\<bar>" "\<bar>x\<bar> < 2 powr (real_of_int (e + 1))"
    by simp_all
  then show "2 powi e \<le> \<bar>x\<bar>" "\<bar>x\<bar> < 2 powi (e + 1)"
    unfolding p by simp_all
qed

text \<open>Rounding a value whose binade is known.\<close>

lemma binary64_at:
  assumes "2 powi e \<le> \<bar>x\<bar>" "\<bar>x\<bar> < 2 powi (e + 1)" "- 1022 \<le> e"
  shows "binary64 x = of_int (round_even (x / 2 powi (e - 52))) * 2 powi (e - 52)"
proof -
  have pos: "0 < \<bar>x\<bar>"
    using assms(1) by (smt (verit) zero_less_power_int)
  have p: "(2::real) powr (real_of_int k) = 2 powi k" for k
    by (rule powr_real_of_int') simp_all
  have "2 powr (real_of_int e) \<le> \<bar>x\<bar>" "\<bar>x\<bar> < 2 powr (real_of_int (e + 1))"
    using assms unfolding p by simp_all
  then have "\<lfloor>log 2 \<bar>x\<bar>\<rfloor> = e"
    using pos by (subst floor_log_eq_powr_iff) simp_all
  then show ?thesis
    using assms(3) by (simp add: binary64_def max_def Let_def)
qed


text \<open>Some values and their rounding: small integers and halves are binary64 values.\<close>

lemma binary64_values:
  "binary64 0 = 0" "binary64 1 = 1" "binary64 (- 1) = - 1" "binary64 2 = 2" "binary64 (- 2) = - 2"
  "binary64 3 = 3" "binary64 (- 3) = - 3" "binary64 (- 5) = - 5"
  "binary64 (1 / 2) = 1 / 2" "binary64 (- (1 / 2)) = - (1 / 2)" "binary64 (3 / 2) = 3 / 2"
  "binary64 (1 / 3) = 6004799503160661 / 18014398509481984"
  "binary64 (6004799503160661 / 18014398509481984) = 6004799503160661 / 18014398509481984"
  "binary64 (- (2 / 3)) = - (6004799503160661 / 9007199254740992)"
  "binary64 (3002399751580331 / 9007199254740992) = 3002399751580331 / 9007199254740992"
proof -
  show "binary64 0 = 0" by (simp add: binary64_def round_even_def)
  show "binary64 1 = 1" by (subst binary64_at [where e = 0]) (simp_all add: round_even_def)
  show "binary64 (- 1) = - 1" by (subst binary64_at [where e = 0]) (simp_all add: round_even_def)
  show "binary64 2 = 2" by (subst binary64_at [where e = 1]) (simp_all add: round_even_def)
  show "binary64 (- 2) = - 2" by (subst binary64_at [where e = 1]) (simp_all add: round_even_def)
  show "binary64 3 = 3" by (subst binary64_at [where e = 1]) (simp_all add: round_even_def)
  show "binary64 (- 3) = - 3" by (subst binary64_at [where e = 1]) (simp_all add: round_even_def)
  show "binary64 (- 5) = - 5" by (subst binary64_at [where e = 2]) (simp_all add: round_even_def)
  show "binary64 (1 / 2) = 1 / 2"
    by (subst binary64_at [where e = "- 1"]) (simp_all add: round_even_def)
  show "binary64 (- (1 / 2)) = - (1 / 2)"
    by (subst binary64_at [where e = "- 1"]) (simp_all add: round_even_def)
  show "binary64 (3 / 2) = 3 / 2"
    by (subst binary64_at [where e = 0]) (simp_all add: round_even_def)
  show "binary64 (1 / 3) = 6004799503160661 / 18014398509481984"
    by (subst binary64_at [where e = "- 2"]) (simp_all add: round_even_def)
  show "binary64 (6004799503160661 / 18014398509481984) = 6004799503160661 / 18014398509481984"
    by (subst binary64_at [where e = "- 2"]) (simp_all add: round_even_def)
  show "binary64 (- (2 / 3)) = - (6004799503160661 / 9007199254740992)"
    by (subst binary64_at [where e = "- 1"]) (simp_all add: round_even_def)
  show "binary64 (3002399751580331 / 9007199254740992) = 3002399751580331 / 9007199254740992"
    by (subst binary64_at [where e = "- 2"]) (simp_all add: round_even_def)
qed


text \<open>
  Every finite binary64 value is an integer multiple of \<open>2 powi (- 1074)\<close>, the least
  positive one. The difference of two distinct such values is at least that far from
  zero, and no such number rounds to zero: a subtraction of distinct Numbers never
  gives zero.
\<close>

lemma binary64_nonzero:
  assumes "2 powi (- 1074) \<le> \<bar>x\<bar>"
  shows "binary64 x \<noteq> 0"
proof -
  define e where "e = max \<lfloor>log 2 \<bar>x\<bar>\<rfloor> (- 1022)"
  define u :: real where "u = 2 powi (e - 52)"
  have x0: "x \<noteq> 0" using assms by (smt (verit) zero_less_power_int)
  have u0: "0 < u" by (simp add: u_def)
  have "u \<le> \<bar>x\<bar>"
  proof (cases "\<lfloor>log 2 \<bar>x\<bar>\<rfloor> \<le> - 1022")
    case True
    then have "u = 2 powi (- 1074)" by (simp add: u_def e_def max_def)
    then show ?thesis using assms by simp
  next
    case False
    then have e: "e = \<lfloor>log 2 \<bar>x\<bar>\<rfloor>" by (simp add: e_def max_def)
    have "u \<le> 2 powi e"
      unfolding u_def by (rule power_int_increasing) simp_all
    also have "\<dots> \<le> \<bar>x\<bar>"
      unfolding e by (rule floor_log2_bounds(1) [OF x0])
    finally show ?thesis .
  qed
  then have "1 \<le> \<bar>x / u\<bar>" using u0 by (simp add: field_simps)
  moreover have "\<bar>real_of_int (round_even (x / u)) - x / u\<bar> \<le> 1 / 2"
    by (rule round_even_near)
  ultimately have "round_even (x / u) \<noteq> 0"
  proof (cases "round_even (x / u) = 0")
    case True
    assume a: "1 \<le> \<bar>x / u\<bar>" and b: "\<bar>real_of_int (round_even (x / u)) - x / u\<bar> \<le> 1 / 2"
    from b have "\<bar>x / u\<bar> \<le> 1 / 2" unfolding True by simp
    with a show ?thesis by linarith
  qed
  moreover have "binary64 x = of_int (round_even (x / u)) * u"
    by (simp add: binary64_def Let_def u_def e_def)
  ultimately show ?thesis using u0 by simp
qed

lemma binary64_difference_nonzero:
  fixes m n :: int
  assumes "m \<noteq> n"
  shows "binary64 (of_int n * 2 powi (- 1074) - of_int m * 2 powi (- 1074)) \<noteq> 0"
proof (rule binary64_nonzero)
  define t :: real where "t = 2 powi (- 1074)"
  have t: "0 < t" unfolding t_def by (rule zero_less_power_int) simp
  from assms have "1 \<le> \<bar>n - m\<bar>" by linarith
  then have "(1 :: real) \<le> of_int \<bar>n - m\<bar>" by linarith
  then have "1 * t \<le> \<bar>of_int (n - m) :: real\<bar> * t"
    using t by (intro mult_right_mono) simp_all
  also have "\<dots> = \<bar>of_int n * t - of_int m * t\<bar>"
    using t by (simp add: abs_mult flip: left_diff_distrib)
  finally show "2 powi (- 1074) \<le> \<bar>of_int n * 2 powi (- 1074) - of_int m * 2 powi (- 1074) :: real\<bar>"
    unfolding t_def by (simp only: mult_1)
qed
section \<open>Point in polygon\<close>

lemma intersects_total: "intersects p a b \<noteq> None"
  by (cases p; cases a; cases b) (auto simp: js_divide_def)

lemma intersects_crosses: "intersects p a b = Some (crosses p (a, b))"
  using intersects_total [of p a b] by (cases "intersects p a b") (auto simp: crosses_def)

lemma length_cyclic_edges: "length (cyclic_edges polygon) = length polygon"
  by (cases polygon rule: rev_cases) (simp_all add: cyclic_edges_def)

lemma nth_cyclic_edges:
  assumes "i < length polygon"
  shows "cyclic_edges polygon ! i =
    (polygon ! i, polygon ! (if i = 0 then length polygon - 1 else i - 1))"
proof -
  from assms have ne: "polygon \<noteq> []" by auto
  have len: "length (last polygon # butlast polygon) = length polygon"
    using ne by simp
  have "cyclic_edges polygon ! i = (polygon ! i, (last polygon # butlast polygon) ! i)"
    unfolding cyclic_edges_def using assms len by simp
  moreover have "(last polygon # butlast polygon) ! i
      = polygon ! (if i = 0 then length polygon - 1 else i - 1)"
  proof (cases i)
    case 0
    then show ?thesis using ne by (simp add: last_conv_nth)
  next
    case (Suc k)
    then show ?thesis using assms by (simp add: nth_butlast)
  qed
  ultimately show ?thesis by simp
qed

text \<open>
  The loop invariant: from index \<open>i\<close> on, the loop toggles \<open>inside\<close> once for every
  remaining edge that crosses, and it never fails.
\<close>

lemma pip_loop_parity:
  "i \<le> length polygon \<Longrightarrow> j = (if i = 0 then length polygon - 1 else i - 1) \<Longrightarrow>
   pip_loop p polygon i j inside =
     Some (inside \<noteq> odd (length (filter (crosses p) (drop i (cyclic_edges polygon)))))"
proof (induction p polygon i j inside rule: pip_loop.induct)
  case (1 p polygon i j inside)
  show ?case
  proof (cases "i < length polygon")
    case False
    with "1.prems" have "i = length polygon" by simp
    then show ?thesis by (simp add: length_cyclic_edges)
  next
    case True
    let ?c = "crosses p (polygon ! i, polygon ! j)"
    have int: "intersects p (polygon ! i) (polygon ! j) = Some ?c"
      by (rule intersects_crosses)
    have edge: "cyclic_edges polygon ! i = (polygon ! i, polygon ! j)"
      using nth_cyclic_edges [OF True] "1.prems" by simp
    have drop: "drop i (cyclic_edges polygon)
        = (polygon ! i, polygon ! j) # drop (i + 1) (cyclic_edges polygon)"
      using Cons_nth_drop_Suc [of i "cyclic_edges polygon"] True edge
      by (simp add: length_cyclic_edges)
    have IH: "pip_loop p polygon (i + 1) i (if ?c then \<not> inside else inside) =
        Some ((if ?c then \<not> inside else inside)
          \<noteq> odd (length (filter (crosses p) (drop (i + 1) (cyclic_edges polygon)))))"
      using "1.IH" [OF True int] True by simp
    have "pip_loop p polygon i j inside
        = pip_loop p polygon (i + 1) i (if ?c then \<not> inside else inside)"
      using True int by (subst pip_loop.simps) simp
    then show ?thesis
      unfolding IH drop by auto
  qed
qed

lemma pointInPolygon_parity:
  "pointInPolygon p polygon = Some (odd (length (filter (crosses p) (cyclic_edges polygon))))"
  unfolding pointInPolygon_def using pip_loop_parity [of 0 polygon _ p False] by simp

subsection \<open>Reversing the vertex order\<close>

lemma zip_butlast_swap: "zip xs (butlast (x # xs)) = map prod.swap (zip (x # xs) xs)"
  by (induction xs arbitrary: x) simp_all

lemma cyclic_edges_Cons:
  "zs \<noteq> [] \<Longrightarrow> cyclic_edges zs = (hd zs, last zs) # map prod.swap (zip zs (tl zs))"
  by (cases zs) (simp_all add: cyclic_edges_def zip_butlast_swap del: butlast.simps)

lemma zip_snoc_longer:
  "length as = Suc (length bs) \<Longrightarrow> zip (as @ [x]) (bs @ [y]) = zip as bs @ [(last as, y)]"
proof (induction as arbitrary: bs)
  case Nil
  then show ?case by simp
next
  case (Cons a as)
  show ?case
  proof (cases bs)
    case Nil
    with Cons.prems show ?thesis by simp
  next
    case (Cons b bs')
    with Cons.prems Cons.IH [of bs'] show ?thesis by auto
  qed
qed

lemma zip_rev_tl: "zip (rev zs) (tl (rev zs)) = rev (map prod.swap (zip zs (tl zs)))"
proof (induction zs rule: induct_list012)
  case (3 x y ys)
  define as where "as = rev (y # ys)"
  have ne: "as \<noteq> []" and la: "last as = y"
    by (simp_all add: as_def)
  have IH: "zip as (tl as) = rev (map prod.swap (zip (y # ys) ys))"
    using 3 by (simp add: as_def)
  have r: "rev (x # y # ys) = as @ [x]"
    by (simp add: as_def)
  have t: "tl (as @ [x]) = tl as @ [x]"
    using ne by simp
  have "zip (rev (x # y # ys)) (tl (rev (x # y # ys))) = zip (as @ [x]) (tl as @ [x])"
    by (simp only: r t)
  also have "\<dots> = zip as (tl as) @ [(last as, x)]"
    using ne by (intro zip_snoc_longer) simp
  also have "\<dots> = rev (map prod.swap (zip (x # y # ys) (tl (x # y # ys))))"
    by (simp add: IH la)
  finally show ?case .
qed simp_all

lemma cyclic_edges_rev:
  assumes "zs \<noteq> []"
  shows "cyclic_edges (rev zs) = (last zs, hd zs) # rev (zip zs (tl zs))"
proof -
  have "cyclic_edges (rev zs)
      = (hd (rev zs), last (rev zs)) # map prod.swap (zip (rev zs) (tl (rev zs)))"
    using assms by (simp add: cyclic_edges_Cons)
  then show ?thesis
    using assms by (simp add: zip_rev_tl hd_rev last_rev rev_map [symmetric] o_def)
qed

text \<open>In exact arithmetic an edge crosses whichever endpoint is taken first.\<close>

lemma crosses_swap: "crosses p (b, a) = crosses p (a, b)"
proof -
  obtain px py xi yi xj yj where [simp]: "p = (px, py)" "a = (xi, yi)" "b = (xj, yj)"
    by (cases p; cases a; cases b) auto
  show ?thesis
  proof (cases "yi = yj")
    case True
    then show ?thesis by (simp add: crosses_def)
  next
    case False
    have "(xi - xj) * (py - yj) / (yi - yj) + xj = (xj - xi) * (py - yi) / (yj - yi) + xi"
      using False by (simp add: field_simps)
    with False show ?thesis
      by (auto simp: crosses_def js_divide_def)
  qed
qed


lemma crossings_swap:
  "length (filter (crosses p) (map prod.swap es)) = length (filter (crosses p) es)"
  by (induction es) (auto simp: crosses_swap)

lemma crossings_rev:
  "length (filter (crosses p) (cyclic_edges (rev zs))) = length (filter (crosses p) (cyclic_edges zs))"
proof (cases "zs = []")
  case True
  then show ?thesis by simp
next
  case False
  have r: "length (filter (crosses p) (rev es)) = length (filter (crosses p) es)" for es
    by (simp add: rev_filter [symmetric])
  have "length (filter (crosses p) (cyclic_edges (rev zs)))
      = (if crosses p (last zs, hd zs) then 1 else 0)
        + length (filter (crosses p) (rev (zip zs (tl zs))))"
    by (simp add: cyclic_edges_rev [OF False])
  also have "\<dots> = (if crosses p (hd zs, last zs) then 1 else 0)
        + length (filter (crosses p) (map prod.swap (zip zs (tl zs))))"
    by (simp only: r crossings_swap crosses_swap [of p "last zs" "hd zs"])
  also have "\<dots> = length (filter (crosses p) (cyclic_edges zs))"
    by (simp add: cyclic_edges_Cons [OF False])
  finally show ?thesis .
qed

lemma pointInPolygon_rev: "pointInPolygon p (rev polygon) = pointInPolygon p polygon"
  by (simp add: pointInPolygon_parity crossings_rev)

text \<open>
  Claim C4, as stated, fails in the arithmetic of the program: the vertex order can
  change the answer for a point within rounding error of an edge. The point is
  \<open>(0.3333333333333333, 1)\<close>, whose abscissa is the Number \<^verbatim>\<open>1/3\<close>, just left of the
  edge from \<open>(0,0)\<close> to \<open>(1,3)\<close> of a quadrilateral. With the edge taken from
  \<open>(1,3)\<close> the crossing abscissa is computed as \<^verbatim>\<open>2/-3 + 1\<close>, which is
  \<open>0.33333333333333337\<close>, and the point is inside; with the vertices reversed it is
  computed as \<^verbatim>\<open>1/3 + 0\<close>, which is the abscissa of the point, and the point is
  outside.
\<close>

theorem pointInPolygon_orientation_counterexample:
  "binary64 (1 / 3) = 6004799503160661 / 18014398509481984
   \<and> pointInPolygon_binary64 (6004799503160661 / 18014398509481984, 1)
        [(0, 0), (1, 3), (- 5, 3), (- 5, 0)] = Some True
   \<and> rev [(0 :: real, 0 :: real), (1, 3), (- 5, 3), (- 5, 0)] = [(- 5, 0), (- 5, 3), (1, 3), (0, 0)]
   \<and> pointInPolygon_binary64 (6004799503160661 / 18014398509481984, 1)
        [(- 5, 0), (- 5, 3), (1, 3), (0, 0)] = Some False"
  by (simp add: pointInPolygon_binary64_def rounded_def binary64_values)

text \<open>
  Claim C4, amended. On the unit square \<open>[(0,0),(1,0),(1,1),(0,1)]\<close>, in either vertex
  order, the test answers true for the point \<open>(0.5,0.5)\<close> and false for \<open>(2,2)\<close>, in the
  exact and in the rounded reading. For every polygon and every point, the polygon with
  its vertices in the reverse order gets the same answer when the arithmetic is exact.
\<close>

theorem pointInPolygon_unit_square_and_orientation:
  "pointInPolygon (1 / 2, 1 / 2) [(0, 0), (1, 0), (1, 1), (0, 1)] = Some True
   \<and> pointInPolygon (2, 2) [(0, 0), (1, 0), (1, 1), (0, 1)] = Some False
   \<and> pointInPolygon (1 / 2, 1 / 2) [(0, 1), (1, 1), (1, 0), (0, 0)] = Some True
   \<and> pointInPolygon (2, 2) [(0, 1), (1, 1), (1, 0), (0, 0)] = Some False
   \<and> pointInPolygon_binary64 (1 / 2, 1 / 2) [(0, 0), (1, 0), (1, 1), (0, 1)] = Some True
   \<and> pointInPolygon_binary64 (2, 2) [(0, 0), (1, 0), (1, 1), (0, 1)] = Some False
   \<and> pointInPolygon_binary64 (1 / 2, 1 / 2) [(0, 1), (1, 1), (1, 0), (0, 0)] = Some True
   \<and> pointInPolygon_binary64 (2, 2) [(0, 1), (1, 1), (1, 0), (0, 0)] = Some False
   \<and> (\<forall>p polygon. pointInPolygon p (rev polygon) = pointInPolygon p polygon)"
proof (intro conjI allI)
  show "pointInPolygon (1 / 2, 1 / 2) [(0, 0), (1, 0), (1, 1), (0, 1)] = Some True"
    by (simp add: pointInPolygon_def js_divide_def)
  show "pointInPolygon (2, 2) [(0, 0), (1, 0), (1, 1), (0, 1)] = Some False"
    by (simp add: pointInPolygon_def js_divide_def)
  show "pointInPolygon (1 / 2, 1 / 2) [(0, 1), (1, 1), (1, 0), (0, 0)] = Some True"
    by (simp add: pointInPolygon_def js_divide_def)
  show "pointInPolygon (2, 2) [(0, 1), (1, 1), (1, 0), (0, 0)] = Some False"
    by (simp add: pointInPolygon_def js_divide_def)
  show "pointInPolygon_binary64 (1 / 2, 1 / 2) [(0, 0), (1, 0), (1, 1), (0, 1)] = Some True"
    by (simp add: pointInPolygon_binary64_def rounded_def binary64_values)
  show "pointInPolygon_binary64 (2, 2) [(0, 0), (1, 0), (1, 1), (0, 1)] = Some False"
    by (simp add: pointInPolygon_binary64_def)
  show "pointInPolygon_binary64 (1 / 2, 1 / 2) [(0, 1), (1, 1), (1, 0), (0, 0)] = Some True"
    by (simp add: pointInPolygon_binary64_def rounded_def binary64_values)
  show "pointInPolygon_binary64 (2, 2) [(0, 1), (1, 1), (1, 0), (0, 0)] = Some False"
    by (simp add: pointInPolygon_binary64_def)
  show "pointInPolygon p (rev polygon) = pointInPolygon p polygon" for p polygon
    by (rule pointInPolygon_rev)
qed

text \<open>
  Claim C7. For an edge whose endpoints have the same latitude and any point, the edge
  test gives false without a division; for any edge, the division is reached only when
  the endpoint latitudes straddle the point's latitude, and then its divisor is not
  zero; so neither the edge test nor \<^verbatim>\<open>pointInPolygon\<close> ever divides by zero.
  The same holds in the rounded reading: an edge with equal latitudes gives false
  without a division, and when two latitudes that are Numbers (integer multiples of
  \<open>2 powi (- 1074)\<close>) straddle the point's latitude, their computed difference, the
  divisor, is not zero.
\<close>

theorem pointInPolygon_no_division_by_zero:
  "intersects (px, py) (xi, y) (xj, y) = Some False
   \<and> (((yi > py) \<noteq> (yj > py)) \<longrightarrow>
        yj - yi \<noteq> 0
        \<and> intersects (px, py) (xi, yi) (xj, yj)
            = Some (px < ((xj - xi) * (py - yi)) / (yj - yi) + xi))
   \<and> (\<not> ((yi > py) \<noteq> (yj > py)) \<longrightarrow> intersects (px, py) (xi, yi) (xj, yj) = Some False)
   \<and> intersects (px, py) (xi, yi) (xj, yj) \<noteq> None
   \<and> pointInPolygon (px, py) polygon \<noteq> None
   \<and> intersects_binary64 (px, py) (xi, y) (xj, y) = Some False
   \<and> (((of_int m * 2 powi (- 1074) > py) \<noteq> (of_int n * 2 powi (- 1074) > py)) \<longrightarrow>
        binary64 (of_int n * 2 powi (- 1074) - of_int m * 2 powi (- 1074)) \<noteq> 0)"
proof (intro conjI impI)
  show "intersects_binary64 (px, py) (xi, y) (xj, y) = Some False"
    by simp
  show "binary64 (of_int n * 2 powi (- 1074) - of_int m * 2 powi (- 1074)) \<noteq> 0"
    if "(of_int m * 2 powi (- 1074) > py) \<noteq> (of_int n * 2 powi (- 1074) > py)"
  proof (rule binary64_difference_nonzero)
    from that show "m \<noteq> n" by auto
  qed
  show "intersects (px, py) (xi, y) (xj, y) = Some False"
    by simp
  show "yj - yi \<noteq> 0" if "(yi > py) \<noteq> (yj > py)"
    using that by auto
  show "intersects (px, py) (xi, yi) (xj, yj)
      = Some (px < ((xj - xi) * (py - yi)) / (yj - yi) + xi)" if "(yi > py) \<noteq> (yj > py)"
    using that by (auto simp: js_divide_def)
  show "intersects (px, py) (xi, yi) (xj, yj) = Some False" if "\<not> ((yi > py) \<noteq> (yj > py))"
    using that by simp
  show "intersects (px, py) (xi, yi) (xj, yj) \<noteq> None"
    by (rule intersects_total)
  show "pointInPolygon (px, py) polygon \<noteq> None"
    by (simp add: pointInPolygon_parity)
qed

theorem pointInPolygon_no_division_by_zero_witness:
  "intersects (1 / 2, 1 / 2) (0, 0) (1, 0) = Some False
   \<and> (1::real) - 0 \<noteq> 0
   \<and> intersects (1 / 2, 1 / 2) (1, 0) (1, 1) = Some True
   \<and> intersects (1 / 2, 1 / 2) (1, 1) (0, 1) = Some False
   \<and> pointInPolygon (1 / 2, 1 / 2) [(0, 0), (1, 0), (1, 1), (0, 1)] \<noteq> None
   \<and> intersects_binary64 (1 / 2, 1 / 2) (0, 0) (1, 0) = Some False
   \<and> binary64 (of_int 1 * 2 powi (- 1074) - of_int 0 * 2 powi (- 1074)) \<noteq> 0"
  using pointInPolygon_no_division_by_zero [of "1 / 2" "1 / 2" 0 0 1 0 0 "[(0, 0), (1, 0), (1, 1), (0, 1)]" 0 0]
    pointInPolygon_no_division_by_zero [of "1 / 2" "1 / 2" 1 1 1 0 1 "[]" 0 0]
    pointInPolygon_no_division_by_zero [of "1 / 2" "1 / 2" 1 1 0 1 1 "[]" 0 0]
    pointInPolygon_no_division_by_zero [of 0 0 0 0 0 0 0 "[]" 0 1]
  by simp

section \<open>Great-circle distance\<close>





















section \<open>Rendering a distance\<close>



















section \<open>Filtering and ranking\<close>






lemma first_ring_Some:
  "first_ring data = Some polygon \<Longrightarrow> \<exists>f fs rings. features data = Some (f # fs) \<and> coordinates f = polygon # rings"
  by (auto simp: first_ring_def split: option.splits list.splits)





lemma results_items_showLoading [simp]: "results_items (showLoading b s) = results_items s"
  by (simp add: showLoading_def)


section \<open>The listeners\<close>

lemmas listener_defs =
  on_input_def on_submit_def on_timer_def on_blur_def on_keydown_def on_mousedown_def
  on_suggestions_settled_def on_geocode_settled_def on_isochrone_settled_def
  selectSuggestion_def renderSuggestions_def clearTimeout_def setTimeout_def
  clearPreviousResults_def removeMapLayers_def showLoading_def setStatus_def
  search_failed_def handleError_def display_results_def displayOnMap_def
  displayResultsList_def

lemmas client_defs =
  fetchSuggestions_def to_suggestion_def geocodeAddress_def fetchIsochrone_def first_ring_def
  strip_leading_comma_def starts_with_def

lemmas example_defs =
  geocode_ok_def isochrone_ok_def two_suggestions_def network_down_def
  unit_square_def far_square_def example_schools_def
  search_geocoded_def second_search_done_def first_search_late_def typing_continues_def focus_lost_def
  late_suggestions_def second_suggestion_active_def index_left_behind_def
  degenerate_ring_search_def

lemmas eval_defs =
  listener_defs client_defs example_defs initial_app_def trim_def is_white_space_def
  AUTOCOMPLETE_MIN_CHARS_def rank_schools_def in_region_def annotate_def with_distance_def
  pointInPolygon_def js_divide_def Array_sort_def userMessage_def Let_def

lemma js_includes_nonempty: "js_includes m sub \<Longrightarrow> sub \<noteq> [] \<Longrightarrow> m \<noteq> []"
  by (cases m) auto

lemma userMessage_nonempty: "userMessage err \<noteq> []"
  using js_includes_nonempty [of "message err" "''Address not found''"]
  by (auto simp: userMessage_def)

text \<open>What a failed run leaves: the message of its error, shown as an error, and no overlay.\<close>

lemma search_failed_eq:
  "search_failed err s =
     s\<lparr>status_text := userMessage err, status_info := False, status_hidden := False,
       loading := False\<rparr>"
  using userMessage_nonempty [of err]
  by (simp add: search_failed_def handleError_def setStatus_def showLoading_def)





section \<open>Overlapping searches\<close>



section \<open>Debounced suggestions\<close>




lemma timers_on_submit [simp]:
  "timers (on_submit s) = timers s"
  "autocompleteDebounceTimer (on_submit s) = autocompleteDebounceTimer s"
  by (simp_all add: on_submit_def clearPreviousResults_def removeMapLayers_def showLoading_def
      setStatus_def Let_def)

lemma timers_selectSuggestion [simp]:
  "timers (selectSuggestion place s) = timers s"
  "autocompleteDebounceTimer (selectSuggestion place s) = autocompleteDebounceTimer s"
  by (simp_all add: selectSuggestion_def)

lemma timers_on_keydown [simp]:
  "timers (on_keydown k s) = timers s"
  "autocompleteDebounceTimer (on_keydown k s) = autocompleteDebounceTimer s"
  by (simp_all add: on_keydown_def Let_def)

lemma timers_on_mousedown [simp]:
  "timers (on_mousedown i s) = timers s"
  "autocompleteDebounceTimer (on_mousedown i s) = autocompleteDebounceTimer s"
  by (simp_all add: on_mousedown_def)

lemma timers_renderSuggestions [simp]:
  "timers (renderSuggestions suggestions s) = timers s"
  "autocompleteDebounceTimer (renderSuggestions suggestions s) = autocompleteDebounceTimer s"
  by (simp_all add: renderSuggestions_def Let_def)

lemma timers_on_suggestions_settled [simp]:
  "timers (on_suggestions_settled i response s) = timers s"
  "autocompleteDebounceTimer (on_suggestions_settled i response s) = autocompleteDebounceTimer s"
  by (simp_all add: on_suggestions_settled_def Let_def split: option.splits sum.splits)

lemma timers_search_failed [simp]:
  "timers (search_failed err s) = timers s"
  "autocompleteDebounceTimer (search_failed err s) = autocompleteDebounceTimer s"
  by (simp_all add: search_failed_eq)

lemma timers_on_geocode_settled [simp]:
  "timers (on_geocode_settled i response s) = timers s"
  "autocompleteDebounceTimer (on_geocode_settled i response s) = autocompleteDebounceTimer s"
  by (simp_all add: on_geocode_settled_def Let_def
      split: option.splits sum.splits search_stage.splits)

lemma timers_display_results [simp]:
  "timers (fst (display_results SFUSD_SCHOOLS c data s)) = timers s"
  "autocompleteDebounceTimer (fst (display_results SFUSD_SCHOOLS c data s))
     = autocompleteDebounceTimer s"
  by (simp_all add: display_results_def displayOnMap_def displayResultsList_def
      removeMapLayers_def Let_def split: option.splits)

lemma timers_on_isochrone_settled [simp]:
  "timers (on_isochrone_settled SFUSD_SCHOOLS i response s) = timers s"
  "autocompleteDebounceTimer (on_isochrone_settled SFUSD_SCHOOLS i response s)
     = autocompleteDebounceTimer s"
proof -
  have "timers (on_isochrone_settled SFUSD_SCHOOLS i response s) = timers s
    \<and> autocompleteDebounceTimer (on_isochrone_settled SFUSD_SCHOOLS i response s)
        = autocompleteDebounceTimer s"
  proof (cases "map_of (searches s) i")
    case None
    then show ?thesis by (simp add: on_isochrone_settled_def)
  next
    case (Some st)
    show ?thesis
    proof (cases st)
      case AwaitGeocode
      with Some show ?thesis by (simp add: on_isochrone_settled_def)
    next
      case (AwaitIsochrone c)
      let ?s1 = "s\<lparr>searches := filter (\<lambda>(j, st). j \<noteq> i) (searches s)\<rparr>"
      show ?thesis
      proof (cases "fetchIsochrone response")
        case (Inl err)
        with Some AwaitIsochrone show ?thesis
          by (simp add: on_isochrone_settled_def)
      next
        case (Inr data)
        obtain s2 ex where d: "display_results SFUSD_SCHOOLS c data ?s1 = (s2, ex)"
          by (cases "display_results SFUSD_SCHOOLS c data ?s1")
        have "timers s2 = timers s" "autocompleteDebounceTimer s2 = autocompleteDebounceTimer s"
          using timers_display_results [of SFUSD_SCHOOLS c data ?s1] d by simp_all
        with Some AwaitIsochrone Inr d show ?thesis
          by (cases ex) (simp_all add: on_isochrone_settled_def showLoading_def)
      qed
    qed
  qed
  then show "timers (on_isochrone_settled SFUSD_SCHOOLS i response s) = timers s"
    "autocompleteDebounceTimer (on_isochrone_settled SFUSD_SCHOOLS i response s)
     = autocompleteDebounceTimer s"
    by simp_all
qed

lemma clearTimeout_fields [simp]:
  "address_value (clearTimeout t s) = address_value s"
  "next_id (clearTimeout t s) = next_id s"
  "suggestion_fetches (clearTimeout t s) = suggestion_fetches s"
  by (simp_all add: clearTimeout_def split: option.splits)






text \<open>A request in flight stays in flight until its own response arrives.\<close>

lemma suggestion_fetches_on_submit [simp]:
  "suggestion_fetches (on_submit s) = suggestion_fetches s"
  by (simp add: on_submit_def clearPreviousResults_def removeMapLayers_def showLoading_def
      setStatus_def Let_def)

lemma suggestion_fetches_display_results [simp]:
  "suggestion_fetches (fst (display_results SFUSD_SCHOOLS c data s)) = suggestion_fetches s"
  by (simp add: display_results_def displayOnMap_def displayResultsList_def
      removeMapLayers_def Let_def split: option.splits)

lemma suggestion_fetches_on_isochrone_settled [simp]:
  "suggestion_fetches (on_isochrone_settled SFUSD_SCHOOLS i response s) = suggestion_fetches s"
proof (cases "map_of (searches s) i")
  case None
  then show ?thesis by (simp add: on_isochrone_settled_def)
next
  case (Some st)
  show ?thesis
  proof (cases st)
    case AwaitGeocode
    with Some show ?thesis by (simp add: on_isochrone_settled_def)
  next
    case (AwaitIsochrone c)
    let ?s1 = "s\<lparr>searches := filter (\<lambda>(j, st). j \<noteq> i) (searches s)\<rparr>"
    show ?thesis
    proof (cases "fetchIsochrone response")
      case (Inl err)
      with Some AwaitIsochrone show ?thesis
        by (simp add: on_isochrone_settled_def search_failed_eq)
    next
      case (Inr data)
      obtain s2 ex where d: "display_results SFUSD_SCHOOLS c data ?s1 = (s2, ex)"
        by (cases "display_results SFUSD_SCHOOLS c data ?s1")
      have "suggestion_fetches s2 = suggestion_fetches s"
        using suggestion_fetches_display_results [of SFUSD_SCHOOLS c data ?s1] d by simp
      with Some AwaitIsochrone Inr d show ?thesis
        by (cases ex) (simp_all add: on_isochrone_settled_def showLoading_def search_failed_eq)
    qed
  qed
qed






lemma renderSuggestions_fields:
  "autocomplete_items (renderSuggestions suggestions s) = suggestions"
  "autocomplete_hidden (renderSuggestions suggestions s) = (suggestions = [])"
  "activeAutocompleteIndex (renderSuggestions suggestions s) = - 1"
  by (simp_all add: renderSuggestions_def Let_def)




section \<open>Failures of the suggestion request\<close>

lemma on_suggestions_settled_rejected:
  assumes "fetchSuggestions response = Inl err"
  shows "on_suggestions_settled i response s =
    (case map_of (suggestion_fetches s) i of
       None \<Rightarrow> s
     | Some q \<Rightarrow> s\<lparr>suggestion_fetches := filter (\<lambda>(j, q). j \<noteq> i) (suggestion_fetches s)\<rparr>)"
  using assms by (simp add: on_suggestions_settled_def split: option.splits)

text \<open>
  Claim C8 against the code. A response that is not \<^verbatim>\<open>ok\<close> and a body without
  \<^verbatim>\<open>features\<close> give the empty list. A transport failure does not: the rejection of
  \<^verbatim>\<open>fetch\<close> is the rejection of \<^verbatim>\<open>fetchSuggestions\<close>, and so is a body that does
  not parse. The debounce callback ends at the rejection, so the list of suggestions
  stays as it was, and the status line is not touched.
\<close>

theorem fetchSuggestions_transport_failure:
  "fetchSuggestions network_down = Inl (JsError ''TypeError'' ''Failed to fetch'')
   \<and> fetchSuggestions (HttpResponse True 200 (Inl (JsError ''SyntaxError'' ''Unexpected token'')))
       = Inl (JsError ''SyntaxError'' ''Unexpected token'')
   \<and> fetchSuggestions (HttpResponse False 500 body) = Inr []
   \<and> fetchSuggestions (HttpResponse True 200 (Inr \<lparr>features = None\<rparr>)) = Inr []
   \<and> autocomplete_items (step SFUSD_SCHOOLS s (SuggestionsSettled i network_down))
       = autocomplete_items s
   \<and> autocomplete_hidden (step SFUSD_SCHOOLS s (SuggestionsSettled i network_down))
       = autocomplete_hidden s
   \<and> status_text (step SFUSD_SCHOOLS s (SuggestionsSettled i network_down)) = status_text s
   \<and> status_hidden (step SFUSD_SCHOOLS s (SuggestionsSettled i network_down)) = status_hidden s"
proof -
  have n: "fetchSuggestions network_down = Inl (JsError ''TypeError'' ''Failed to fetch'')"
    by (simp add: fetchSuggestions_def network_down_def)
  show ?thesis
    unfolding step.simps on_suggestions_settled_rejected [OF n]
    by (simp add: fetchSuggestions_def network_down_def split: option.splits)
qed

section \<open>Rings with fewer than three distinct vertices\<close>











section \<open>The active suggestion\<close>

lemma index_in_range_cong:
  assumes "activeAutocompleteIndex s' = activeAutocompleteIndex s"
    and "autocomplete_items s' = autocomplete_items s"
    and "autocomplete_hidden s' = autocomplete_hidden s"
    and "index_in_range s"
  shows "index_in_range s'"
  using assms by (simp add: index_in_range_def)

lemma on_submit_autocomplete:
  "activeAutocompleteIndex (on_submit s) = activeAutocompleteIndex s"
  "trim (address_value s) \<noteq> [] \<Longrightarrow>
     autocomplete_items (on_submit s) = [] \<and> autocomplete_hidden (on_submit s)"
  "trim (address_value s) = [] \<Longrightarrow> on_submit s = s"
  by (simp_all add: on_submit_def clearPreviousResults_def removeMapLayers_def showLoading_def
      setStatus_def Let_def)

lemma index_in_range_on_submit: "index_in_range s \<Longrightarrow> index_in_range (on_submit s)"
  using on_submit_autocomplete [of s]
  by (cases "trim (address_value s) = []") (auto simp: index_in_range_def)

lemma index_selectSuggestion: "activeAutocompleteIndex (selectSuggestion place s) = - 1"
  by (simp add: selectSuggestion_def on_submit_autocomplete(1))

lemma index_in_range_selectSuggestion: "index_in_range (selectSuggestion place s)"
  unfolding selectSuggestion_def
  by (rule index_in_range_on_submit) (simp add: index_in_range_def)

lemma index_in_range_renderSuggestions: "index_in_range (renderSuggestions suggestions s)"
  by (simp add: index_in_range_def renderSuggestions_def Let_def)

lemma on_keydown_visible:
  assumes "\<not> autocomplete_hidden s" "autocomplete_items s \<noteq> []"
  shows "on_keydown ArrowDown s =
      s\<lparr>activeAutocompleteIndex :=
          min (activeAutocompleteIndex s + 1) (int (length (autocomplete_items s)) - 1)\<rparr>"
    and "on_keydown ArrowUp s =
      s\<lparr>activeAutocompleteIndex := max (activeAutocompleteIndex s - 1) 0\<rparr>"
    and "on_keydown Escape s = s\<lparr>autocomplete_hidden := True, activeAutocompleteIndex := - 1\<rparr>"
  using assms by (simp_all add: on_keydown_def Let_def)

lemma on_keydown_hidden: "autocomplete_hidden s \<Longrightarrow> on_keydown k s = s"
  by (simp add: on_keydown_def)

lemma on_keydown_empty: "autocomplete_items s = [] \<Longrightarrow> on_keydown k s = s"
  by (simp add: on_keydown_def Let_def)

lemma index_in_range_on_keydown:
  assumes "index_in_range s"
  shows "index_in_range (on_keydown k s)"
proof (cases "autocomplete_hidden s \<or> autocomplete_items s = []")
  case True
  then have "on_keydown k s = s"
    using on_keydown_hidden [of s k] on_keydown_empty [of s k] by blast
  with assms show ?thesis by simp
next
  case False
  then have v: "\<not> autocomplete_hidden s" "autocomplete_items s \<noteq> []" by simp_all
  then have n: "0 < length (autocomplete_items s)" by simp
  show ?thesis
  proof (cases k)
    case ArrowDown
    then show ?thesis
      using assms v n unfolding on_keydown_visible(1) [OF v] ArrowDown
      by (simp add: index_in_range_def)
  next
    case ArrowUp
    then show ?thesis
      using assms v n unfolding on_keydown_visible(2) [OF v] ArrowUp
      by (simp add: index_in_range_def)
  next
    case Enter
    then show ?thesis
      using assms v by (simp add: on_keydown_def Let_def index_in_range_selectSuggestion)
  next
    case Escape
    then show ?thesis
      using assms v unfolding on_keydown_visible(3) [OF v] Escape
      by (simp add: index_in_range_def)
  next
    case OtherKey
    then show ?thesis
      using assms v by (simp add: on_keydown_def Let_def)
  qed
qed

lemma index_in_range_on_input: "index_in_range s \<Longrightarrow> index_in_range (on_input v s)"
  by (cases "autocompleteDebounceTimer s")
    (simp_all add: index_in_range_def on_input_def Let_def clearTimeout_def setTimeout_def)

lemma index_in_range_on_timer: "index_in_range s \<Longrightarrow> index_in_range (on_timer i s)"
  by (simp add: index_in_range_def on_timer_def Let_def split: option.splits timer.splits)

lemma blur_timer_resets:
  "map_of (timers s) t = Some BlurTimer \<Longrightarrow>
     activeAutocompleteIndex (on_timer t s) = - 1 \<and> autocomplete_hidden (on_timer t s)"
  by (simp add: on_timer_def)

lemma index_in_range_on_suggestions_settled:
  "index_in_range s \<Longrightarrow> index_in_range (on_suggestions_settled i response s)"
proof (cases "map_of (suggestion_fetches s) i")
  case None
  assume "index_in_range s"
  with None show ?thesis by (simp add: on_suggestions_settled_def)
next
  case (Some q)
  assume a: "index_in_range s"
  show ?thesis
  proof (cases "fetchSuggestions response")
    case (Inl err)
    with Some a show ?thesis
      by (simp add: on_suggestions_settled_def index_in_range_def)
  next
    case (Inr suggestions)
    with Some show ?thesis
      by (simp add: on_suggestions_settled_def index_in_range_renderSuggestions)
  qed
qed

lemma autocomplete_on_geocode_settled:
  "activeAutocompleteIndex (on_geocode_settled i response s) = activeAutocompleteIndex s"
  "autocomplete_items (on_geocode_settled i response s) = autocomplete_items s"
  "autocomplete_hidden (on_geocode_settled i response s) = autocomplete_hidden s"
  by (simp_all add: on_geocode_settled_def Let_def search_failed_eq
      split: option.splits sum.splits search_stage.splits)

lemma autocomplete_display_results:
  "activeAutocompleteIndex (fst (display_results SFUSD_SCHOOLS c data s)) = activeAutocompleteIndex s"
  "autocomplete_items (fst (display_results SFUSD_SCHOOLS c data s)) = autocomplete_items s"
  "autocomplete_hidden (fst (display_results SFUSD_SCHOOLS c data s)) = autocomplete_hidden s"
  by (simp_all add: display_results_def displayOnMap_def displayResultsList_def
      removeMapLayers_def Let_def split: option.splits)

lemma autocomplete_on_isochrone_settled:
  "activeAutocompleteIndex (on_isochrone_settled SFUSD_SCHOOLS i response s)
     = activeAutocompleteIndex s
   \<and> autocomplete_items (on_isochrone_settled SFUSD_SCHOOLS i response s) = autocomplete_items s
   \<and> autocomplete_hidden (on_isochrone_settled SFUSD_SCHOOLS i response s)
     = autocomplete_hidden s"
proof (cases "map_of (searches s) i")
  case None
  then show ?thesis by (simp add: on_isochrone_settled_def)
next
  case (Some st)
  show ?thesis
  proof (cases st)
    case AwaitGeocode
    with Some show ?thesis by (simp add: on_isochrone_settled_def)
  next
    case (AwaitIsochrone c)
    let ?s1 = "s\<lparr>searches := filter (\<lambda>(j, st). j \<noteq> i) (searches s)\<rparr>"
    show ?thesis
    proof (cases "fetchIsochrone response")
      case (Inl err)
      with Some AwaitIsochrone show ?thesis
        by (simp add: on_isochrone_settled_def search_failed_eq)
    next
      case (Inr data)
      obtain s2 ex where d: "display_results SFUSD_SCHOOLS c data ?s1 = (s2, ex)"
        by (cases "display_results SFUSD_SCHOOLS c data ?s1")
      have "activeAutocompleteIndex s2 = activeAutocompleteIndex s"
        "autocomplete_items s2 = autocomplete_items s"
        "autocomplete_hidden s2 = autocomplete_hidden s"
        using autocomplete_display_results [of SFUSD_SCHOOLS c data ?s1] d by simp_all
      with Some AwaitIsochrone Inr d show ?thesis
        by (cases ex) (simp_all add: on_isochrone_settled_def showLoading_def search_failed_eq)
    qed
  qed
qed

lemma index_in_range_step:
  assumes "index_in_range s"
  shows "index_in_range (step SFUSD_SCHOOLS s e)"
proof (cases e)
  case (Input v)
  then show ?thesis using assms by (simp add: index_in_range_on_input)
next
  case (KeyDown k)
  then show ?thesis using assms by (simp add: index_in_range_on_keydown)
next
  case Blur
  then show ?thesis using assms by (simp add: index_in_range_def on_blur_def setTimeout_def)
next
  case (MouseDown n)
  then show ?thesis
    using assms by (simp add: on_mousedown_def index_in_range_selectSuggestion)
next
  case Submit
  then show ?thesis using assms by (simp add: index_in_range_on_submit)
next
  case (TimerFires t)
  then show ?thesis using assms by (simp add: index_in_range_on_timer)
next
  case (SuggestionsSettled i response)
  then show ?thesis using assms by (simp add: index_in_range_on_suggestions_settled)
next
  case (GeocodeSettled i response)
  then show ?thesis
    using assms autocomplete_on_geocode_settled [of i response s]
    by (simp add: index_in_range_def)
next
  case (IsochroneSettled i response)
  then show ?thesis
    using assms autocomplete_on_isochrone_settled [of SFUSD_SCHOOLS i response s]
    by (simp add: index_in_range_def)
qed

lemma index_in_range_run: "index_in_range s \<Longrightarrow> index_in_range (run SFUSD_SCHOOLS s es)"
  by (induction es arbitrary: s) (simp_all add: index_in_range_step)

lemma index_in_range_initial: "index_in_range initial_app"
  by (simp add: index_in_range_def initial_app_def)

text \<open>
  Claim C10, as stated, fails: the index is not always within \<open>[-1, n - 1]\<close> for the
  \<open>n\<close> suggestions rendered. In \<open>index_left_behind\<close> the second of two suggestions is
  active when a keystroke leaves fewer than three characters; the input listener empties
  the list and keeps the index, which is then 1 with no suggestion rendered.
\<close>

theorem active_index_counterexample:
  "activeAutocompleteIndex (run example_schools initial_app index_left_behind) = 1
   \<and> autocomplete_items (run example_schools initial_app index_left_behind) = []
   \<and> \<not> activeAutocompleteIndex (run example_schools initial_app index_left_behind)
        \<le> int (length (autocomplete_items (run example_schools initial_app index_left_behind))) - 1"
  by (simp add: eval_defs)

text \<open>
  Claim C10, amended. In every state the page can reach, the index is at least \<open>-1\<close>,
  and whenever suggestions are rendered (as they are whenever the list is visible, which
  is when the keyboard listener reads the index) it is at most \<open>n - 1\<close> for the \<open>n\<close>
  rendered suggestions. On a visible list ArrowDown moves it to
  \<open>min (index + 1) (n - 1)\<close>, ArrowUp to \<open>max (index - 1) 0\<close> and Escape to \<open>-1\<close>;
  rendering a suggestion list, selecting a suggestion and the blur timer set it to
  \<open>-1\<close>.
\<close>

theorem active_index_in_range:
  "index_in_range (run SFUSD_SCHOOLS initial_app es)
   \<and> (index_in_range s \<longrightarrow> index_in_range (step SFUSD_SCHOOLS s e))
   \<and> (\<not> autocomplete_hidden s \<and> autocomplete_items s \<noteq> [] \<longrightarrow>
        activeAutocompleteIndex (step SFUSD_SCHOOLS s (KeyDown ArrowDown))
          = min (activeAutocompleteIndex s + 1) (int (length (autocomplete_items s)) - 1)
        \<and> activeAutocompleteIndex (step SFUSD_SCHOOLS s (KeyDown ArrowUp))
          = max (activeAutocompleteIndex s - 1) 0
        \<and> activeAutocompleteIndex (step SFUSD_SCHOOLS s (KeyDown Escape)) = - 1)
   \<and> activeAutocompleteIndex (renderSuggestions suggestions s) = - 1
   \<and> activeAutocompleteIndex (selectSuggestion place s) = - 1
   \<and> (map_of (timers s) t = Some BlurTimer \<longrightarrow>
        activeAutocompleteIndex (step SFUSD_SCHOOLS s (TimerFires t)) = - 1)"
proof (intro conjI impI)
  show "index_in_range (run SFUSD_SCHOOLS initial_app es)"
    by (intro index_in_range_run index_in_range_initial)
next
  assume "index_in_range s"
  then show "index_in_range (step SFUSD_SCHOOLS s e)"
    by (rule index_in_range_step)
next
  assume a: "\<not> autocomplete_hidden s \<and> autocomplete_items s \<noteq> []"
  then have v: "\<not> autocomplete_hidden s" "autocomplete_items s \<noteq> []" by simp_all
  show "activeAutocompleteIndex (step SFUSD_SCHOOLS s (KeyDown ArrowDown))
          = min (activeAutocompleteIndex s + 1) (int (length (autocomplete_items s)) - 1)"
    by (simp add: on_keydown_visible(1) [OF v])
  show "activeAutocompleteIndex (step SFUSD_SCHOOLS s (KeyDown ArrowUp))
          = max (activeAutocompleteIndex s - 1) 0"
    by (simp add: on_keydown_visible(2) [OF v])
  show "activeAutocompleteIndex (step SFUSD_SCHOOLS s (KeyDown Escape)) = - 1"
    by (simp add: on_keydown_visible(3) [OF v])
next
  show "activeAutocompleteIndex (renderSuggestions suggestions s) = - 1"
    by (simp add: renderSuggestions_fields)
  show "activeAutocompleteIndex (selectSuggestion place s) = - 1"
    by (rule index_selectSuggestion)
next
  assume "map_of (timers s) t = Some BlurTimer"
  then show "activeAutocompleteIndex (step SFUSD_SCHOOLS s (TimerFires t)) = - 1"
    by (simp add: blur_timer_resets)
qed


theorem active_index_in_range_witness:
  "index_in_range (run example_schools initial_app index_left_behind)
   \<and> index_in_range
       (step example_schools (run example_schools initial_app second_suggestion_active)
          (KeyDown ArrowDown))
   \<and> activeAutocompleteIndex
       (step example_schools (run example_schools initial_app second_suggestion_active)
          (KeyDown ArrowDown)) = 1
   \<and> activeAutocompleteIndex
       (step example_schools (run example_schools initial_app second_suggestion_active)
          (KeyDown ArrowUp)) = 0
   \<and> activeAutocompleteIndex
       (step example_schools (run example_schools initial_app second_suggestion_active)
          (KeyDown Escape)) = - 1
   \<and> activeAutocompleteIndex
       (step example_schools
          (run example_schools initial_app (second_suggestion_active @ [Blur]))
          (TimerFires 2)) = - 1"
proof -
  let ?s = "run example_schools initial_app second_suggestion_active"
  let ?b = "run example_schools initial_app (second_suggestion_active @ [Blur])"
  have s: "\<not> autocomplete_hidden ?s" "length (autocomplete_items ?s) = 2"
    "activeAutocompleteIndex ?s = 1" "index_in_range ?s"
    by (simp_all add: eval_defs index_in_range_def)
  then have ne: "autocomplete_items ?s \<noteq> []" by auto
  have b: "map_of (timers ?b) 2 = Some BlurTimer"
    by (simp add: eval_defs)
  show ?thesis
    using active_index_in_range [where SFUSD_SCHOOLS = example_schools
        and es = index_left_behind and s = ?s and e = "KeyDown ArrowDown"]
      active_index_in_range [where SFUSD_SCHOOLS = example_schools and s = ?b and t = 2]
    unfolding b using s ne by simp
qed

section \<open>The ranked result on a concrete search\<close>



end
